theory Spec2Isabelle
  imports Complex_Main
begin

section \<open>JavaScript values\<close>

text \<open>
  The values the client handles: what \<^verbatim>\<open>JSON.parse\<close> yields (null, booleans, numbers,
  strings, arrays, objects) and \<^verbatim>\<open>undefined\<close>, the value of a missing property or
  argument. An object is the list of its own enumerable properties in the order
  \<^verbatim>\<open>Object.entries\<close> visits them; a property is looked up with \<open>map_of\<close>.
\<close>

datatype js_value =
    JUndefined
  | JNull
  | JBool bool
  | JNumber real
  | JString string
  | JArray "js_value list"
  | JObject "(string \<times> js_value) list"

text \<open>
  What the code can throw: \<^verbatim>\<open>new Error(message)\<close>, the runtime's \<^verbatim>\<open>TypeError\<close>
  (a property read on \<^verbatim>\<open>null\<close> or \<^verbatim>\<open>undefined\<close>, \<^verbatim>\<open>Object.entries(null)\<close>), and
  the HTTP library's rejection, of which the code reads \<^verbatim>\<open>error.response\<close> (its
  \<^verbatim>\<open>status\<close> and \<^verbatim>\<open>data\<close>) and whether \<^verbatim>\<open>error.request\<close> is set.
\<close>

datatype js_error =
    Error string
  | TypeError
  | AxiosError "(nat \<times> js_value) option" bool

text \<open>The second argument of a listing: a number, as \<^verbatim>\<open>parseInt\<close> returns it.\<close>

datatype js_limit = NaN | Limit int

fun typeof :: "js_value \<Rightarrow> string" where
  "typeof JUndefined = ''undefined''"
| "typeof JNull = ''object''"
| "typeof (JBool b) = ''boolean''"
| "typeof (JNumber n) = ''number''"
| "typeof (JString s) = ''string''"
| "typeof (JArray xs) = ''object''"
| "typeof (JObject ps) = ''object''"

fun truthy :: "js_value \<Rightarrow> bool" where
  "truthy JUndefined = False"
| "truthy JNull = False"
| "truthy (JBool b) = b"
| "truthy (JNumber n) = (n \<noteq> 0)"
| "truthy (JString s) = (s \<noteq> [])"
| "truthy (JArray xs) = True"
| "truthy (JObject ps) = True"

text \<open>\<^verbatim>\<open>a || b\<close>\<close>

definition or_else :: "js_value \<Rightarrow> js_value \<Rightarrow> js_value" where
  "or_else a b = (if truthy a then a else b)"

text \<open>
  \<^verbatim>\<open>v[k]\<close> for the property names this program reads (\<^verbatim>\<open>jcr:primaryType\<close>,
  \<^verbatim>\<open>jcr:content\<close>, \<^verbatim>\<open>jcr:title\<close>, \<^verbatim>\<open>error\<close>, \<^verbatim>\<open>message\<close>, ...): none of them is
  an index, \<^verbatim>\<open>length\<close> or a prototype property, so only an object can have one.
  Reading a property of \<^verbatim>\<open>null\<close> or \<^verbatim>\<open>undefined\<close> throws.
\<close>

fun member :: "js_value \<Rightarrow> string \<Rightarrow> js_error + js_value" where
  "member JUndefined k = Inl TypeError"
| "member JNull k = Inl TypeError"
| "member (JObject ps) k = Inr (case map_of ps k of None \<Rightarrow> JUndefined | Some v \<Rightarrow> v)"
| "member v k = Inr JUndefined"

text \<open>\<^verbatim>\<open>v?.[k]\<close>\<close>

fun opt_member :: "js_value \<Rightarrow> string \<Rightarrow> js_value" where
  "opt_member (JObject ps) k = (case map_of ps k of None \<Rightarrow> JUndefined | Some v \<Rightarrow> v)"
| "opt_member v k = JUndefined"

text \<open>Sequencing of two steps of which the first may throw.\<close>

fun and_then :: "js_error + 'a \<Rightarrow> ('a \<Rightarrow> js_error + 'b) \<Rightarrow> js_error + 'b" where
  "and_then (Inl e) f = Inl e"
| "and_then (Inr x) f = f x"

definition startsWith :: "string \<Rightarrow> string \<Rightarrow> bool" where
  "startsWith s p = (take (length p) s = p)"

text \<open>A non-negative integer in decimal, as a template literal prints it.\<close>

definition digit :: "nat \<Rightarrow> char" where
  "digit d = ''0123456789'' ! d"

fun String_nat :: "nat \<Rightarrow> string" where
  "String_nat n = (if n < 10 then [digit n] else String_nat (n div 10) @ [digit (n mod 10)])"

declare String_nat.simps [simp del]

fun index_entries :: "nat \<Rightarrow> js_value list \<Rightarrow> (string \<times> js_value) list" where
  "index_entries i [] = []"
| "index_entries i (x # xs) = (String_nat i, x) # index_entries (Suc i) xs"

text \<open>
  The own enumerable properties of a value: those of an object, the elements of an
  array and the characters of a string under their indices, none for a number or a
  boolean.
\<close>

fun own_properties :: "js_value \<Rightarrow> (string \<times> js_value) list" where
  "own_properties (JObject ps) = ps"
| "own_properties (JArray xs) = index_entries 0 xs"
| "own_properties (JString s) = index_entries 0 (map (\<lambda>c. JString [c]) s)"
| "own_properties v = []"

text \<open>\<^verbatim>\<open>Object.entries(v)\<close>: throws on \<^verbatim>\<open>null\<close> and \<^verbatim>\<open>undefined\<close>.\<close>

fun Object_entries :: "js_value \<Rightarrow> js_error + (string \<times> js_value) list" where
  "Object_entries JUndefined = Inl TypeError"
| "Object_entries JNull = Inl TypeError"
| "Object_entries v = Inr (own_properties v)"

section \<open>Listing projections (api.js)\<close>

text \<open>\<^verbatim>\<open>rows.length >= limit\<close>\<close>

fun length_ge :: "nat \<Rightarrow> js_limit \<Rightarrow> bool" where
  "length_ge n NaN = False"
| "length_ge n (Limit l) = (l \<le> int n)"

text \<open>
  \<^verbatim>\<open>key.startsWith('jcr:') || key === 'rep:policy'\<close>, the test of the \<^verbatim>\<open>continue\<close>
  of the three listing loops.
\<close>

definition skipped :: "string \<Rightarrow> bool" where
  "skipped key = (startsWith key ''jcr:'' \<or> key = ''rep:policy'')"

text \<open>The object literal pushed by \<^verbatim>\<open>listAssets\<close> (api.js, lines 56 to 63).\<close>

definition asset_row :: "string \<Rightarrow> string \<Rightarrow> js_value \<Rightarrow> js_error + js_value" where
  "asset_row path key val =
     and_then (member val ''jcr:primaryType'') (\<lambda>primaryType.
     and_then (member val ''jcr:content'') (\<lambda>content1.
     and_then (member val ''jcr:content'') (\<lambda>content2.
     and_then (member val ''jcr:content'') (\<lambda>content3.
       Inr (JObject
         [(''name'', JString key),
          (''path'', JString (path @ ''/'' @ key)),
          (''type'', primaryType),
          (''title'', or_else (opt_member content1 ''jcr:title'') (JString key)),
          (''mimeType'', or_else (opt_member content2 ''jcr:mimeType'') (JString ''N/A'')),
          (''lastModified'',
             or_else (opt_member content3 ''jcr:lastModified'') (JString ''N/A''))])))))"

text \<open>The loop of \<^verbatim>\<open>listAssets\<close> (api.js, lines 53 to 66); \<open>assets\<close> is the array so far.\<close>

fun listAssets_loop ::
  "string \<Rightarrow> js_limit \<Rightarrow> (string \<times> js_value) list \<Rightarrow> js_value list \<Rightarrow> js_error + js_value list"
where
  "listAssets_loop path limit [] assets = Inr assets"
| "listAssets_loop path limit ((key, val) # entries) assets =
     (if skipped key then listAssets_loop path limit entries assets
      else if typeof val = ''object'' then
        and_then (member val ''jcr:primaryType'') (\<lambda>primaryType.
          if truthy primaryType then
            and_then (asset_row path key val) (\<lambda>row.
              if length_ge (length (assets @ [row])) limit then Inr (assets @ [row])
              else listAssets_loop path limit entries (assets @ [row]))
          else listAssets_loop path limit entries assets)
      else listAssets_loop path limit entries assets)"

text \<open>Lines 51 to 67 of \<^verbatim>\<open>listAssets\<close>: from \<^verbatim>\<open>response.data\<close> to the returned array.\<close>

definition listAssets_rows :: "string \<Rightarrow> js_limit \<Rightarrow> js_value \<Rightarrow> js_error + js_value list" where
  "listAssets_rows path limit data =
     and_then (Object_entries data) (\<lambda>entries. listAssets_loop path limit entries [])"

text \<open>The object literal pushed by \<^verbatim>\<open>listPages\<close> (api.js, lines 113 to 119).\<close>

definition page_row :: "string \<Rightarrow> string \<Rightarrow> js_value \<Rightarrow> js_error + js_value" where
  "page_row path key val =
     and_then (member val ''jcr:content'') (\<lambda>content1.
     and_then (member val ''jcr:content'') (\<lambda>content2.
     and_then (member val ''jcr:content'') (\<lambda>content3.
       Inr (JObject
         [(''name'', JString key),
          (''path'', JString (path @ ''/'' @ key)),
          (''title'', or_else (opt_member content1 ''jcr:title'') (JString key)),
          (''template'', or_else (opt_member content2 ''cq:template'') (JString ''N/A'')),
          (''lastModified'',
             or_else (opt_member content3 ''cq:lastModified'') (JString ''N/A''))]))))"

text \<open>The loop of \<^verbatim>\<open>listPages\<close> (api.js, lines 110 to 122).\<close>

fun listPages_loop ::
  "string \<Rightarrow> js_limit \<Rightarrow> (string \<times> js_value) list \<Rightarrow> js_value list \<Rightarrow> js_error + js_value list"
where
  "listPages_loop path limit [] pages = Inr pages"
| "listPages_loop path limit ((key, val) # entries) pages =
     (if skipped key then listPages_loop path limit entries pages
      else if typeof val = ''object'' then
        and_then (page_row path key val) (\<lambda>row.
          if length_ge (length (pages @ [row])) limit then Inr (pages @ [row])
          else listPages_loop path limit entries (pages @ [row]))
      else listPages_loop path limit entries pages)"

definition listPages_rows :: "string \<Rightarrow> js_limit \<Rightarrow> js_value \<Rightarrow> js_error + js_value list" where
  "listPages_rows path limit data =
     and_then (Object_entries data) (\<lambda>entries. listPages_loop path limit entries [])"

text \<open>The object literal pushed by \<^verbatim>\<open>listTags\<close> (api.js, lines 173 to 179).\<close>

definition tag_row :: "string \<Rightarrow> string \<Rightarrow> js_value \<Rightarrow> js_error + js_value" where
  "tag_row namespace key val =
     and_then (member val ''jcr:title'') (\<lambda>title.
     and_then (member val ''jcr:description'') (\<lambda>description.
     and_then (member val ''cq:count'') (\<lambda>count.
       Inr (JObject
         [(''name'', JString key),
          (''path'', JString (namespace @ ''/'' @ key)),
          (''title'', or_else title (JString key)),
          (''description'', or_else description (JString ''N/A'')),
          (''count'', or_else count (JNumber 0))]))))"

text \<open>The loop of \<^verbatim>\<open>listTags\<close> (api.js, lines 170 to 181): it has no \<^verbatim>\<open>break\<close>.\<close>

fun listTags_loop ::
  "string \<Rightarrow> (string \<times> js_value) list \<Rightarrow> js_value list \<Rightarrow> js_error + js_value list"
where
  "listTags_loop namespace [] tags = Inr tags"
| "listTags_loop namespace ((key, val) # entries) tags =
     (if skipped key then listTags_loop namespace entries tags
      else if typeof val = ''object'' then
        and_then (tag_row namespace key val) (\<lambda>row.
          listTags_loop namespace entries (tags @ [row]))
      else listTags_loop namespace entries tags)"

definition listTags_rows :: "string \<Rightarrow> js_value \<Rightarrow> js_error + js_value list" where
  "listTags_rows namespace data =
     and_then (Object_entries data) (\<lambda>entries. listTags_loop namespace entries [])"

section \<open>Conversion to text\<close>

text \<open>
  What the program takes from the JavaScript runtime and does not define itself: how a
  number prints, and \<^verbatim>\<open>JSON.stringify\<close> (read through a template literal, so as text).
\<close>

record runtime =
  Number_toString :: "real \<Rightarrow> string"
  JSON_stringify :: "js_value \<Rightarrow> string"

fun join_comma :: "(js_error + string) list \<Rightarrow> js_error + string" where
  "join_comma [] = Inr []"
| "join_comma [x] = x"
| "join_comma (x # y # ys) =
     and_then x (\<lambda>s. and_then (join_comma (y # ys)) (\<lambda>t. Inr (s @ '','' @ t)))"

text \<open>
  \<^verbatim>\<open>`${v}`\<close>: a string is itself, an array joins its elements with commas (nothing
  for \<^verbatim>\<open>null\<close> and \<^verbatim>\<open>undefined\<close>), a plain object is \<^verbatim>\<open>[object Object]\<close>; an object
  with a \<^verbatim>\<open>toString\<close> property of its own (never a function in parsed JSON) cannot be
  converted, which throws.
\<close>

fun ToString :: "runtime \<Rightarrow> js_value \<Rightarrow> js_error + string" where
  "ToString rt JUndefined = Inr ''undefined''"
| "ToString rt JNull = Inr ''null''"
| "ToString rt (JBool b) = Inr (if b then ''true'' else ''false'')"
| "ToString rt (JNumber n) = Inr (Number_toString rt n)"
| "ToString rt (JString s) = Inr s"
| "ToString rt (JArray xs) =
     join_comma (map (\<lambda>x. if x = JUndefined \<or> x = JNull then Inr [] else ToString rt x) xs)"
| "ToString rt (JObject ps) =
     (if map_of ps ''toString'' = None then Inr ''[object Object]'' else Inl TypeError)"

section \<open>Configuration store (config.js)\<close>

text \<open>
  The persisted store of the \<^verbatim>\<open>conf\<close> package, as the keys it holds and their string
  values; \<^verbatim>\<open>config.get(key)\<close> is \<^verbatim>\<open>undefined\<close> for a key it does not hold. This is
  \<^verbatim>\<open>config.get\<close> for a key that is one name, as \<^verbatim>\<open>username\<close>, \<^verbatim>\<open>password\<close> and
  \<^verbatim>\<open>baseUrl\<close> are: the package reads a key with dots in it as a path into the stored
  value, which is not modelled, and nothing below is stated for such a key.
\<close>

type_synonym config = "string \<Rightarrow> string option"

definition getConfig :: "config \<Rightarrow> string \<Rightarrow> string option" where
  "getConfig store key = store key"

definition setConfig :: "config \<Rightarrow> string \<Rightarrow> string \<Rightarrow> config" where
  "setConfig store key v = store(key \<mapsto> v)"

text \<open>Truthiness of a string that may be \<^verbatim>\<open>undefined\<close>.\<close>

fun is_set :: "string option \<Rightarrow> bool" where
  "is_set None = False"
| "is_set (Some s) = (s \<noteq> [])"

text \<open>A parameter with a default value: \<open>None\<close> is an argument left out.\<close>

fun default_to :: "'a \<Rightarrow> 'a option \<Rightarrow> 'a" where
  "default_to d None = d"
| "default_to d (Some x) = x"

definition isConfigured :: "config \<Rightarrow> bool" where
  "isConfigured store = (is_set (store ''username'') \<and> is_set (store ''password''))"

definition getAllConfig :: "config \<Rightarrow> config" where
  "getAllConfig store = store"

section \<open>HTTP client and error mapping (api.js)\<close>

definition DEFAULT_BASE_URL :: string where
  "DEFAULT_BASE_URL = ''http://localhost:4502''"

text \<open>\<^verbatim>\<open>getConfig('baseUrl') || DEFAULT_BASE_URL\<close>\<close>

definition configured_baseURL :: "config \<Rightarrow> string" where
  "configured_baseURL store =
     (case getConfig store ''baseUrl'' of
        None \<Rightarrow> DEFAULT_BASE_URL
      | Some u \<Rightarrow> if u \<noteq> [] then u else DEFAULT_BASE_URL)"

text \<open>An axios instance: its base URL, its credentials and its default headers.\<close>

datatype client = Client string "string \<times> string" "(string \<times> string) list"

definition NotConfigured :: js_error where
  "NotConfigured =
     Error ''AEM credentials not configured. Run: adobe config set --username admin --password admin''"

definition getClient :: "config \<Rightarrow> js_error + client" where
  "getClient store =
     (let username = getConfig store ''username'';
          password = getConfig store ''password'';
          baseURL = configured_baseURL store
      in if \<not> is_set username \<or> \<not> is_set password then Inl NotConfigured
         else Inr (Client baseURL (default_to [] username, default_to [] password)
                [(''Accept'', ''application/json''), (''Content-Type'', ''application/json'')]))"

text \<open>
  \<^verbatim>\<open>data?.error?.message || data?.message || JSON.stringify(data)\<close>, as the template
  literal of line 34 prints it.
\<close>

definition api_message :: "runtime \<Rightarrow> js_value \<Rightarrow> js_error + string" where
  "api_message rt data =
     (if truthy (opt_member (opt_member data ''error'') ''message'')
      then ToString rt (opt_member (opt_member data ''error'') ''message'')
      else if truthy (opt_member data ''message'')
      then ToString rt (opt_member data ''message'')
      else Inr (JSON_stringify rt data))"

text \<open>
  \<^verbatim>\<open>handleApiError\<close> never returns: the result is the error it throws.
\<close>

fun handleApiError :: "runtime \<Rightarrow> config \<Rightarrow> js_error \<Rightarrow> js_error" where
  "handleApiError rt store (AxiosError (Some (status, data)) req) =
     (if status = 401 then Error ''Authentication failed. Check your AEM credentials.''
      else if status = 403 then Error ''Access forbidden. Check your AEM user permissions.''
      else if status = 404 then Error ''Resource not found in AEM.''
      else if status = 500 then Error ''AEM server error. Check your AEM instance.''
      else (case api_message rt data of
              Inl e \<Rightarrow> e
            | Inr message \<Rightarrow> Error (''API Error ('' @ String_nat status @ ''): '' @ message)))"
| "handleApiError rt store (AxiosError None req) =
     (if req
      then Error (''No response from AEM at '' @ configured_baseURL store
                    @ ''. Is your AEM instance running?'')
      else AxiosError None req)"
| "handleApiError rt store error = error"

section \<open>Resource operations (api.js)\<close>

datatype http_method = GET | POST | DELETE

text \<open>
  A request body: none, \<^verbatim>\<open>URLSearchParams\<close> (name and value pairs in order), or the
  multipart form of an upload (the file part with its content, file name and content
  type, then the \<^verbatim>\<open>fileName\<close> field).
\<close>

datatype body =
    NoBody
  | UrlEncoded "(string \<times> string) list"
  | FormData "string \<times> string \<times> string" string

text \<open>
  A request as the client sends it: the method, the instance it is sent through, the
  URL given to the call, the body and the headers given to the call.
\<close>

datatype request = Request http_method client string body "(string \<times> string) list"

text \<open>
  The remote side: for each request either \<^verbatim>\<open>response.data\<close> of the response the
  call resolves with, or the error it rejects with.
\<close>

type_synonym server = "request \<Rightarrow> js_error + js_value"

text \<open>
  What an operation does: the requests it sent, in order, and the value it returns or
  the error it throws.
\<close>

type_synonym outcome = "request list \<times> (js_error + js_value)"

text \<open>
  The body every operation shares: \<^verbatim>\<open>try { const client = getClient(); const response =
  await client.<method>(...); <rest> } catch (error) { handleApiError(error); }\<close>, where
  \<open>mk\<close> builds the request from the client and \<open>rest\<close> is the code after the call.
\<close>

definition try_request ::
  "runtime \<Rightarrow> config \<Rightarrow> server \<Rightarrow> (client \<Rightarrow> request) \<Rightarrow> (js_value \<Rightarrow> js_error + js_value) \<Rightarrow> outcome"
where
  "try_request rt store net mk rest =
     (case getClient store of
        Inl error \<Rightarrow> ([], Inl (handleApiError rt store error))
      | Inr client \<Rightarrow>
          (case net (mk client) of
             Inl error \<Rightarrow> ([mk client], Inl (handleApiError rt store error))
           | Inr data \<Rightarrow>
               (case rest data of
                  Inl error \<Rightarrow> ([mk client], Inl (handleApiError rt store error))
                | Inr result \<Rightarrow> ([mk client], Inr result))))"

definition listAssets ::
  "runtime \<Rightarrow> config \<Rightarrow> server \<Rightarrow> string option \<Rightarrow> js_limit option \<Rightarrow> outcome" where
  "listAssets rt store net path_arg limit_arg =
     (let path = default_to ''/content/dam'' path_arg; limit = default_to (Limit 20) limit_arg in
      try_request rt store net
        (\<lambda>client. Request GET client (path @ ''.infinity.json'') NoBody [])
        (\<lambda>data. and_then (listAssets_rows path limit data) (\<lambda>assets. Inr (JArray assets))))"

text \<open>
  \<^verbatim>\<open>{ ...v }\<close> into an object literal under construction: each own property of \<open>v\<close>, in
  order, replaces the property of that name or is added at the end. The list gives the
  properties and their values; its order is the order of the result for keys that are not
  integers only (JavaScript enumerates integer keys first), so what is stated of a
  spread below is stated of the values of its properties, through \<open>map_of\<close>.
\<close>

fun set_property :: "string \<Rightarrow> js_value \<Rightarrow> (string \<times> js_value) list \<Rightarrow> (string \<times> js_value) list" where
  "set_property k v [] = [(k, v)]"
| "set_property k v ((k', v') # ps) =
     (if k' = k then (k, v) # ps else (k', v') # set_property k v ps)"

definition spread :: "js_value \<Rightarrow> (string \<times> js_value) list \<Rightarrow> (string \<times> js_value) list" where
  "spread v ps = fold (\<lambda>(k, x). set_property k x) (own_properties v) ps"

definition getAsset :: "runtime \<Rightarrow> config \<Rightarrow> server \<Rightarrow> string \<Rightarrow> outcome" where
  "getAsset rt store net assetPath =
     try_request rt store net
       (\<lambda>client. Request GET client (assetPath @ ''.infinity.json'') NoBody [])
       (\<lambda>data. Inr (JObject (spread data [(''path'', JString assetPath)])))"

definition uploadAsset ::
  "runtime \<Rightarrow> config \<Rightarrow> server \<Rightarrow> string \<Rightarrow> string \<Rightarrow> string \<Rightarrow> string option \<Rightarrow> outcome" where
  "uploadAsset rt store net damPath fileName fileContent mimeType_arg =
     (let mimeType = default_to ''application/octet-stream'' mimeType_arg in
      try_request rt store net
        (\<lambda>client. Request POST client (damPath @ ''.createasset.html'')
           (FormData (fileContent, fileName, mimeType) fileName)
           [(''content-type'', ''multipart/form-data''), (''Accept'', ''application/json'')])
        (\<lambda>data. Inr data))"

definition listPages ::
  "runtime \<Rightarrow> config \<Rightarrow> server \<Rightarrow> string option \<Rightarrow> js_limit option \<Rightarrow> outcome" where
  "listPages rt store net path_arg limit_arg =
     (let path = default_to ''/content'' path_arg; limit = default_to (Limit 20) limit_arg in
      try_request rt store net
        (\<lambda>client. Request GET client (path @ ''.1.json'') NoBody [])
        (\<lambda>data. and_then (listPages_rows path limit data) (\<lambda>pages. Inr (JArray pages))))"

definition getPage :: "runtime \<Rightarrow> config \<Rightarrow> server \<Rightarrow> string \<Rightarrow> outcome" where
  "getPage rt store net pagePath =
     try_request rt store net
       (\<lambda>client. Request GET client (pagePath @ ''.infinity.json'') NoBody [])
       (\<lambda>data. Inr (JObject (spread data [(''path'', JString pagePath)])))"

text \<open>An argument that may be left out, as the value the code sees.\<close>

fun arg_value :: "string option \<Rightarrow> js_value" where
  "arg_value None = JUndefined"
| "arg_value (Some s) = JString s"

definition createPage ::
  "runtime \<Rightarrow> config \<Rightarrow> server \<Rightarrow> string \<Rightarrow> string \<Rightarrow> string \<Rightarrow> string option \<Rightarrow> outcome" where
  "createPage rt store net parentPath pageName title template =
     try_request rt store net
       (\<lambda>client. Request POST client parentPath
          (UrlEncoded
            [(''_charset_'', ''utf-8''),
             ('':name'', pageName),
             (''jcr:primaryType'', ''cq:Page''),
             (''jcr:content/jcr:primaryType'', ''cq:PageContent''),
             (''jcr:content/jcr:title'', title),
             (''jcr:content/cq:template'',
                (if is_set template then default_to [] template
                 else ''/libs/wcm/foundation/templates/page''))])
          [(''Content-Type'', ''application/x-www-form-urlencoded'')])
       (\<lambda>response. Inr (JObject
          [(''path'', JString (parentPath @ ''/'' @ pageName)),
           (''title'', JString title),
           (''template'', arg_value template)]))"

definition listTags :: "runtime \<Rightarrow> config \<Rightarrow> server \<Rightarrow> string option \<Rightarrow> outcome" where
  "listTags rt store net namespace_arg =
     (let namespace = default_to ''/content/cq:tags'' namespace_arg in
      try_request rt store net
        (\<lambda>client. Request GET client (namespace @ ''.1.json'') NoBody [])
        (\<lambda>data. and_then (listTags_rows namespace data) (\<lambda>tags. Inr (JArray tags))))"

definition createTag ::
  "runtime \<Rightarrow> config \<Rightarrow> server \<Rightarrow> string \<Rightarrow> string \<Rightarrow> string \<Rightarrow> string option \<Rightarrow> outcome" where
  "createTag rt store net namespace tagName title description =
     try_request rt store net
       (\<lambda>client. Request POST client (namespace @ ''/'' @ tagName)
          (UrlEncoded
            ([(''_charset_'', ''utf-8''),
              (''jcr:primaryType'', ''cq:Tag''),
              (''jcr:title'', title)]
             @ (if is_set description then [(''jcr:description'', default_to [] description)]
                else [])))
          [(''Content-Type'', ''application/x-www-form-urlencoded'')])
       (\<lambda>response. Inr (JObject
          [(''path'', JString (namespace @ ''/'' @ tagName)),
           (''name'', JString tagName),
           (''title'', JString title),
           (''description'', arg_value description)]))"

definition deleteTag :: "runtime \<Rightarrow> config \<Rightarrow> server \<Rightarrow> string \<Rightarrow> outcome" where
  "deleteTag rt store net tagPath =
     try_request rt store net
       (\<lambda>client. Request DELETE client tagPath NoBody
          [(''Content-Type'', ''application/x-www-form-urlencoded'')])
       (\<lambda>response. Inr JUndefined)"

text \<open>The nine operations \<^verbatim>\<open>api.js\<close> exports, with their arguments.\<close>

datatype operation =
    ListAssets "string option" "js_limit option"
  | GetAsset string
  | UploadAsset string string string "string option"
  | ListPages "string option" "js_limit option"
  | GetPage string
  | CreatePage string string string "string option"
  | ListTags "string option"
  | CreateTag string string string "string option"
  | DeleteTag string

fun perform :: "runtime \<Rightarrow> config \<Rightarrow> server \<Rightarrow> operation \<Rightarrow> outcome" where
  "perform rt store net (ListAssets p l) = listAssets rt store net p l"
| "perform rt store net (GetAsset p) = getAsset rt store net p"
| "perform rt store net (UploadAsset d f c m) = uploadAsset rt store net d f c m"
| "perform rt store net (ListPages p l) = listPages rt store net p l"
| "perform rt store net (GetPage p) = getPage rt store net p"
| "perform rt store net (CreatePage p n t tpl) = createPage rt store net p n t tpl"
| "perform rt store net (ListTags ns) = listTags rt store net ns"
| "perform rt store net (CreateTag ns n t d) = createTag rt store net ns n t d"
| "perform rt store net (DeleteTag p) = deleteTag rt store net p"

section \<open>The config commands (index.js)\<close>

text \<open>
  The colours of \<^verbatim>\<open>chalk\<close>; what \<^verbatim>\<open>chalk.green(s)\<close> returns (the text alone, or the
  text between escape codes) depends on the terminal, so it is a parameter.
\<close>

datatype colour = green | red | yellow | bold | cyan

text \<open>A line written by \<^verbatim>\<open>console.log\<close> or by \<^verbatim>\<open>console.error\<close>.\<close>

datatype console_line = Stdout string | Stderr string

text \<open>The cross mark U+2717 of \<^verbatim>\<open>printError\<close>, in UTF-8.\<close>

definition cross_mark :: string where
  "cross_mark = [CHR 0xE2, CHR 0x9C, CHR 0x97]"

definition printError :: "(colour \<Rightarrow> string \<Rightarrow> string) \<Rightarrow> string \<Rightarrow> console_line list" where
  "printError chalk message = [Stderr (chalk red cross_mark @ '' '' @ message)]"

text \<open>\<^verbatim>\<open>config get <key>\<close> (index.js, lines 108 to 118).\<close>

definition config_get :: "(colour \<Rightarrow> string \<Rightarrow> string) \<Rightarrow> config \<Rightarrow> string \<Rightarrow> console_line list" where
  "config_get chalk store key =
     (case getConfig store key of
        None \<Rightarrow> printError chalk (''Key '' @ [CHR 0x22] @ key @ [CHR 0x22] @ '' not found'')
      | Some v \<Rightarrow> [Stdout (if key = ''password'' then ''****'' else v)])"

text \<open>
  \<^verbatim>\<open>config list\<close> (index.js, lines 120 to 130); \<^verbatim>\<open>console.log(a, b)\<close> writes the two
  arguments with a space between them.
\<close>

definition config_list :: "(colour \<Rightarrow> string \<Rightarrow> string) \<Rightarrow> config \<Rightarrow> console_line list" where
  "config_list chalk store =
     (let all = getAllConfig store in
      [Stdout (chalk bold ([CHR 0x0A] @ ''Adobe AEM CLI Configuration'' @ [CHR 0x0A])),
       Stdout (''Username: '' @ '' '' @
         (if is_set (all ''username'') then chalk green (default_to [] (all ''username''))
          else chalk red ''not set'')),
       Stdout (''Password: '' @ '' '' @
         (if is_set (all ''password'') then chalk green ''****'' else chalk red ''not set'')),
       Stdout (''Base URL: '' @ '' '' @
         (if is_set (all ''baseUrl'') then chalk green (default_to [] (all ''baseUrl''))
          else chalk yellow ''using default: http://localhost:4502'')),
       Stdout []])"

section \<open>Notions used in the statements\<close>




text \<open>
  The values a template literal can print: every value but an object with a
  \<^verbatim>\<open>toString\<close> property of its own, alone or as an element of an array.
\<close>

fun convertible :: "js_value \<Rightarrow> bool" where
  "convertible (JObject ps) = (map_of ps ''toString'' = None)"
| "convertible (JArray xs) = list_all convertible xs"
| "convertible v = True"

text \<open>
  Values to evaluate the operations at: the credentials of the README's quick start, and
  a runtime for inputs that print no number and serialise no body.
\<close>

definition admin_store :: config where
  "admin_store = [''username'' \<mapsto> ''admin'', ''password'' \<mapsto> ''admin'']"

definition example_runtime :: runtime where
  "example_runtime = \<lparr>Number_toString = (\<lambda>n. ''0''), JSON_stringify = (\<lambda>v. ''null'')\<rparr>"

section \<open>Properties of the listing loops\<close>


lemma typeof_object_iff:
  "typeof v = ''object'' \<longleftrightarrow> v = JNull \<or> (\<exists>xs. v = JArray xs) \<or> (\<exists>ps. v = JObject ps)"
  by (cases v) simp_all


lemma member_Inl_iff: "member v k = Inl e \<longleftrightarrow> (v = JNull \<or> v = JUndefined) \<and> e = TypeError"
  by (cases v) auto

lemma and_then_Inr_iff:
  "and_then m f = Inr y \<longleftrightarrow> (\<exists>x. m = Inr x \<and> f x = Inr y)"
  by (cases m) simp_all

lemma asset_row_fields:
  "asset_row path key val = Inr row \<Longrightarrow>
     opt_member row ''name'' = JString key \<and> opt_member row ''path'' = JString (path @ ''/'' @ key)"
  by (auto simp: asset_row_def and_then_Inr_iff)

lemma page_row_fields:
  "page_row path key val = Inr row \<Longrightarrow>
     opt_member row ''name'' = JString key \<and> opt_member row ''path'' = JString (path @ ''/'' @ key)"
  by (auto simp: page_row_def and_then_Inr_iff)

lemma tag_row_fields:
  "tag_row path key val = Inr row \<Longrightarrow>
     opt_member row ''name'' = JString key \<and> opt_member row ''path'' = JString (path @ ''/'' @ key)"
  by (auto simp: tag_row_def and_then_Inr_iff)

lemma listAssets_loop_skip:
  "listAssets_loop path limit (filter (\<lambda>(k, v). \<not> skipped k) es) acc = listAssets_loop path limit es acc"
  by (induction es arbitrary: acc) (auto cong: if_cong)

lemma listPages_loop_skip:
  "listPages_loop path limit (filter (\<lambda>(k, v). \<not> skipped k) es) acc = listPages_loop path limit es acc"
  by (induction es arbitrary: acc) (auto cong: if_cong)

lemma listTags_loop_skip:
  "listTags_loop path (filter (\<lambda>(k, v). \<not> skipped k) es) acc = listTags_loop path es acc"
  by (induction es arbitrary: acc) (auto cong: if_cong)

lemma listAssets_loop_rows:
  "listAssets_loop path limit es acc = Inr rows \<Longrightarrow> row \<in> set rows \<Longrightarrow>
     row \<in> set acc \<or> (\<exists>(k, v) \<in> set es. \<not> skipped k \<and> asset_row path k v = Inr row)"
proof (induction es arbitrary: acc)
  case Nil
  then show ?case by simp
next
  case (Cons e es)
  obtain k v where e: "e = (k, v)" by (cases e)
  show ?case
    using Cons.prems Cons.IH e
    by (fastforce simp: and_then_Inr_iff split: if_splits)
qed





















lemma listPages_loop_rows:
  "listPages_loop path limit es acc = Inr rows \<Longrightarrow> row \<in> set rows \<Longrightarrow>
     row \<in> set acc \<or> (\<exists>(k, v) \<in> set es. \<not> skipped k \<and> page_row path k v = Inr row)"
proof (induction es arbitrary: acc)
  case Nil
  then show ?case by simp
next
  case (Cons e es)
  obtain k v where e: "e = (k, v)" by (cases e)
  show ?case
    using Cons.prems Cons.IH e
    by (fastforce simp: and_then_Inr_iff split: if_splits)
qed

lemma listTags_loop_rows:
  "listTags_loop path es acc = Inr rows \<Longrightarrow> row \<in> set rows \<Longrightarrow>
     row \<in> set acc \<or> (\<exists>(k, v) \<in> set es. \<not> skipped k \<and> tag_row path k v = Inr row)"
proof (induction es arbitrary: acc)
  case Nil
  then show ?case by simp
next
  case (Cons e es)
  obtain k v where e: "e = (k, v)" by (cases e)
  show ?case
    using Cons.prems Cons.IH e
    by (fastforce simp: and_then_Inr_iff split: if_splits)
qed

lemma Object_entries_Inr: "Object_entries data = Inr es \<Longrightarrow> es = own_properties data"
  by (cases data) simp_all



lemma listAssets_loop_length:
  "length acc < max 1 (nat l) \<Longrightarrow> listAssets_loop path (Limit l) es acc = Inr rows \<Longrightarrow>
     length rows \<le> max 1 (nat l)"
proof (induction es arbitrary: acc)
  case Nil
  then show ?case by simp
next
  case (Cons e es)
  obtain k v where e: "e = (k, v)" by (cases e)
  have step: "length (acc @ [row]) < max 1 (nat l)" if "\<not> length_ge (length (acc @ [row])) (Limit l)" for row
    using that by simp
  show ?case
    using Cons.prems e Cons.IH [of acc] Cons.IH [OF step]
    by (auto simp: and_then_Inr_iff split: if_splits)
qed

lemma listPages_loop_length:
  "length acc < max 1 (nat l) \<Longrightarrow> listPages_loop path (Limit l) es acc = Inr rows \<Longrightarrow>
     length rows \<le> max 1 (nat l)"
proof (induction es arbitrary: acc)
  case Nil
  then show ?case by simp
next
  case (Cons e es)
  obtain k v where e: "e = (k, v)" by (cases e)
  have step: "length (acc @ [row]) < max 1 (nat l)" if "\<not> length_ge (length (acc @ [row])) (Limit l)" for row
    using that by simp
  show ?case
    using Cons.prems e Cons.IH [of acc] Cons.IH [OF step]
    by (auto simp: and_then_Inr_iff split: if_splits)
qed

lemma listing_at_most_limit:
  assumes "1 \<le> l"
    and "listAssets_rows path (Limit l) data = Inr rows \<or>
         listPages_rows path (Limit l) data = Inr rows"
  shows "int (length rows) \<le> l"
proof -
  from assms(2) obtain es where
    "listAssets_loop path (Limit l) es [] = Inr rows \<or>
     listPages_loop path (Limit l) es [] = Inr rows"
    by (auto simp: listAssets_rows_def listPages_rows_def and_then_Inr_iff)
  then have "length rows \<le> max 1 (nat l)"
    using listAssets_loop_length [of "[]" l path es rows]
      listPages_loop_length [of "[]" l path es rows]
    by auto
  with assms(1) show ?thesis by simp
qed

section \<open>Evaluation of the listings on concrete responses\<close>

lemmas eval_defs = listAssets_rows_def listPages_rows_def listTags_rows_def skipped_def
  startsWith_def asset_row_def page_row_def tag_row_def or_else_def

text \<open>
  Claim C7. Projecting the response
  \<^verbatim>\<open>{"jcr:primaryType":"x", "img1":{"jcr:primaryType":"dam:Asset","jcr:content":{"jcr:title":"Photo"}}}\<close>
  as an asset listing at path \<^verbatim>\<open>/content/dam\<close> with limit 20 yields exactly one row, with
  name \<^verbatim>\<open>img1\<close>, path \<^verbatim>\<open>/content/dam/img1\<close>, type \<^verbatim>\<open>dam:Asset\<close>, title \<^verbatim>\<open>Photo\<close> and
  mimeType \<^verbatim>\<open>N/A\<close> (and lastModified \<^verbatim>\<open>N/A\<close>).
\<close>

theorem C7_asset_scenario:
  "listAssets_rows ''/content/dam'' (Limit 20)
     (JObject [(''jcr:primaryType'', JString ''x''),
               (''img1'', JObject [(''jcr:primaryType'', JString ''dam:Asset''),
                                   (''jcr:content'', JObject [(''jcr:title'', JString ''Photo'')])])])
   = Inr [JObject [(''name'', JString ''img1''),
                   (''path'', JString ''/content/dam/img1''),
                   (''type'', JString ''dam:Asset''),
                   (''title'', JString ''Photo''),
                   (''mimeType'', JString ''N/A''),
                   (''lastModified'', JString ''N/A'')]]"
  by (simp add: eval_defs)

theorem C7_asset_scenario_witness:
  "\<exists>row. listAssets_rows ''/content/dam'' (Limit 20)
     (JObject [(''jcr:primaryType'', JString ''x''),
               (''img1'', JObject [(''jcr:primaryType'', JString ''dam:Asset''),
                                   (''jcr:content'', JObject [(''jcr:title'', JString ''Photo'')])])])
     = Inr [row] \<and> opt_member row ''title'' = JString ''Photo''"
  using C7_asset_scenario by simp

text \<open>
  Claim C1, at the limit 0. The claim bounds the rows of an asset or page listing by the
  limit \<open>N\<close> for every \<open>N \<ge> 0\<close>. The loops test the limit only after a push, so with
  limit 0 the first retained child is returned: one row where the claim allows none.
  For a limit of at least 1 the bound holds (\<open>listing_at_most_limit\<close>).
\<close>

theorem C1_limit_zero_returns_a_row:
  "listAssets_rows ''/content/dam'' (Limit 0)
     (JObject [(''a'', JObject [(''jcr:primaryType'', JString ''dam:Asset'')])])
   = Inr [JObject [(''name'', JString ''a''),
                   (''path'', JString ''/content/dam/a''),
                   (''type'', JString ''dam:Asset''),
                   (''title'', JString ''a''),
                   (''mimeType'', JString ''N/A''),
                   (''lastModified'', JString ''N/A'')]]
   \<and> listPages_rows ''/content'' (Limit 0) (JObject [(''a'', JObject [])])
   = Inr [JObject [(''name'', JString ''a''),
                   (''path'', JString ''/content/a''),
                   (''title'', JString ''a''),
                   (''template'', JString ''N/A''),
                   (''lastModified'', JString ''N/A'')]]"
  by (simp add: eval_defs)

theorem C1_limit_zero_witness:
  "\<exists>rows. listAssets_rows ''/content/dam'' (Limit 0)
     (JObject [(''a'', JObject [(''jcr:primaryType'', JString ''dam:Asset'')])]) = Inr rows
     \<and> length rows = 1"
  using C1_limit_zero_returns_a_row by simp

section \<open>What the listings retain\<close>

text \<open>
  Claim C3. For every response object, the three listings skip every property whose key
  starts with \<^verbatim>\<open>jcr:\<close> and every property whose key is exactly \<^verbatim>\<open>rep:policy\<close>: removing
  these properties from the response changes nothing in what a listing returns or throws,
  and no returned row bears such a key as its name.
\<close>

theorem C3_skipped_properties:
  "listAssets_rows path limit (JObject (filter (\<lambda>(key, val). \<not> (startsWith key ''jcr:'' \<or> key = ''rep:policy'')) ps))
     = listAssets_rows path limit (JObject ps)
   \<and> listPages_rows path limit (JObject (filter (\<lambda>(key, val). \<not> (startsWith key ''jcr:'' \<or> key = ''rep:policy'')) ps))
     = listPages_rows path limit (JObject ps)
   \<and> listTags_rows path (JObject (filter (\<lambda>(key, val). \<not> (startsWith key ''jcr:'' \<or> key = ''rep:policy'')) ps))
     = listTags_rows path (JObject ps)
   \<and> (\<forall>rows row.
         (listAssets_rows path limit data = Inr rows \<or> listPages_rows path limit data = Inr rows
            \<or> listTags_rows path data = Inr rows) \<and> row \<in> set rows \<longrightarrow>
         (\<exists>key. opt_member row ''name'' = JString key
            \<and> \<not> startsWith key ''jcr:'' \<and> key \<noteq> ''rep:policy''))"
proof -
  have f: "(\<lambda>(key, val). \<not> (startsWith key ''jcr:'' \<or> key = ''rep:policy'')) = (\<lambda>(k, v :: js_value). \<not> skipped k)"
    by (simp add: skipped_def)
  have a: "listAssets_rows path limit (JObject (filter (\<lambda>(k, v). \<not> skipped k) ps)) = listAssets_rows path limit (JObject ps)"
    by (simp add: listAssets_rows_def listAssets_loop_skip)
  have b: "listPages_rows path limit (JObject (filter (\<lambda>(k, v). \<not> skipped k) ps)) = listPages_rows path limit (JObject ps)"
    by (simp add: listPages_rows_def listPages_loop_skip)
  have c: "listTags_rows path (JObject (filter (\<lambda>(k, v). \<not> skipped k) ps)) = listTags_rows path (JObject ps)"
    by (simp add: listTags_rows_def listTags_loop_skip)
  have d: "\<exists>key. opt_member row ''name'' = JString key \<and> \<not> skipped key"
    if h1: "listAssets_rows path limit data = Inr rows \<or> listPages_rows path limit data = Inr rows
            \<or> listTags_rows path data = Inr rows" and h2: "row \<in> set rows" for rows row
  proof -
    from h1 obtain es where
      "listAssets_loop path limit es [] = Inr rows \<or> listPages_loop path limit es [] = Inr rows
         \<or> listTags_loop path es [] = Inr rows"
      by (auto simp: listAssets_rows_def listPages_rows_def listTags_rows_def and_then_Inr_iff)
    then obtain k v where "\<not> skipped k"
      "asset_row path k v = Inr row \<or> page_row path k v = Inr row \<or> tag_row path k v = Inr row"
      using listAssets_loop_rows [of path limit es "[]" rows row]
        listPages_loop_rows [of path limit es "[]" rows row]
        listTags_loop_rows [of path es "[]" rows row] h2
      by auto
    then show ?thesis
      using asset_row_fields page_row_fields tag_row_fields by blast
  qed
  have d': "\<forall>rows row.
         (listAssets_rows path limit data = Inr rows \<or> listPages_rows path limit data = Inr rows
            \<or> listTags_rows path data = Inr rows) \<and> row \<in> set rows \<longrightarrow>
         (\<exists>key. opt_member row ''name'' = JString key
            \<and> \<not> startsWith key ''jcr:'' \<and> key \<noteq> ''rep:policy'')"
    using d unfolding skipped_def by blast
  show ?thesis
    unfolding f by (intro conjI a b c d')
qed

theorem C3_skipped_properties_witness:
  "listAssets_rows ''/content/dam'' (Limit 20)
     (JObject [(''jcr:created'', JObject [(''jcr:primaryType'', JString ''x'')]),
               (''rep:policy'', JNull),
               (''a'', JObject [(''jcr:primaryType'', JString ''dam:Asset'')])])
   = listAssets_rows ''/content/dam'' (Limit 20)
       (JObject [(''a'', JObject [(''jcr:primaryType'', JString ''dam:Asset'')])])
   \<and> (\<exists>row key. listAssets_rows ''/content/dam'' (Limit 20)
          (JObject [(''jcr:created'', JObject [(''jcr:primaryType'', JString ''x'')]),
                    (''rep:policy'', JNull),
                    (''a'', JObject [(''jcr:primaryType'', JString ''dam:Asset'')])]) = Inr [row]
        \<and> opt_member row ''name'' = JString key
        \<and> \<not> startsWith key ''jcr:'' \<and> key \<noteq> ''rep:policy'')"
  using C3_skipped_properties [of "''/content/dam''" "Limit 20"
      "[(''jcr:created'', JObject [(''jcr:primaryType'', JString ''x'')]),
        (''rep:policy'', JNull),
        (''a'', JObject [(''jcr:primaryType'', JString ''dam:Asset'')])]"
      "JObject [(''jcr:created'', JObject [(''jcr:primaryType'', JString ''x'')]),
               (''rep:policy'', JNull),
               (''a'', JObject [(''jcr:primaryType'', JString ''dam:Asset'')])]"]
  by (simp add: eval_defs)

text \<open>
  Claim C10. Every row a listing (assets, pages or tags) returns was projected from a
  property of the response, bears the key of that property as its \<^verbatim>\<open>name\<close>, and its
  \<^verbatim>\<open>path\<close> is the request path, a slash and that name, whatever the child holds.
\<close>

theorem C10_row_path:
  assumes "listAssets_rows path limit data = Inr rows \<or> listPages_rows path limit data = Inr rows
             \<or> listTags_rows path data = Inr rows"
    and "row \<in> set rows"
  shows "\<exists>key val. (key, val) \<in> set (own_properties data)
           \<and> opt_member row ''name'' = JString key
           \<and> opt_member row ''path'' = JString (path @ ''/'' @ key)"
proof -
  from assms(1) obtain es where es: "es = own_properties data" and
    "listAssets_loop path limit es [] = Inr rows \<or> listPages_loop path limit es [] = Inr rows
       \<or> listTags_loop path es [] = Inr rows"
    by (auto simp: listAssets_rows_def listPages_rows_def listTags_rows_def and_then_Inr_iff
          dest: Object_entries_Inr)
  then obtain k v where "(k, v) \<in> set es"
    "asset_row path k v = Inr row \<or> page_row path k v = Inr row \<or> tag_row path k v = Inr row"
    using listAssets_loop_rows [of path limit es "[]" rows row]
      listPages_loop_rows [of path limit es "[]" rows row]
      listTags_loop_rows [of path es "[]" rows row] assms(2)
    by auto
  then show ?thesis
    using asset_row_fields page_row_fields tag_row_fields es by blast
qed

theorem C10_row_path_witness:
  "listTags_rows ''/content/cq:tags'' (JObject [(''jcr:primaryType'', JString ''cq:Tag''), (''news'', JObject [])])
     = Inr [JObject [(''name'', JString ''news''),
                     (''path'', JString ''/content/cq:tags/news''),
                     (''title'', JString ''news''),
                     (''description'', JString ''N/A''),
                     (''count'', JNumber 0)]]
   \<and> (\<exists>key val. (key, val) \<in> set (own_properties (JObject [(''jcr:primaryType'', JString ''cq:Tag''), (''news'', JObject [])]))
          \<and> opt_member (JObject [(''name'', JString ''news''),
                     (''path'', JString ''/content/cq:tags/news''),
                     (''title'', JString ''news''),
                     (''description'', JString ''N/A''),
                     (''count'', JNumber 0)]) ''path'' = JString (''/content/cq:tags'' @ ''/'' @ key))"
proof -
  let ?data = "JObject [(''jcr:primaryType'', JString ''cq:Tag''), (''news'', JObject [])]"
  let ?row = "JObject [(''name'', JString ''news''),
                     (''path'', JString ''/content/cq:tags/news''),
                     (''title'', JString ''news''),
                     (''description'', JString ''N/A''),
                     (''count'', JNumber 0)]"
  have h: "listTags_rows ''/content/cq:tags'' ?data = Inr [?row]"
    by (simp add: eval_defs)
  from C10_row_path [of "''/content/cq:tags''" NaN ?data "[?row]" ?row] h
  show ?thesis by auto
qed


text \<open>
  A \<^verbatim>\<open>null\<close> child passes the test \<^verbatim>\<open>typeof value === 'object'\<close>, and the property read
  that follows throws: the listing returns no row at all.
\<close>

lemma null_child_throws:
  "listAssets_rows ''/content/dam'' (Limit 20) (JObject [(''a'', JObject []), (''b'', JNull)]) = Inl TypeError"
  "listPages_rows ''/content'' (Limit 20) (JObject [(''a'', JObject []), (''b'', JNull)]) = Inl TypeError"
  "listTags_rows ''/content/cq:tags'' (JObject [(''a'', JObject []), (''b'', JNull)]) = Inl TypeError"
  by (simp_all add: eval_defs)



section \<open>Missing credentials\<close>

lemma getClient_not_configured: "\<not> isConfigured store \<Longrightarrow> getClient store = Inl NotConfigured"
  by (auto simp: isConfigured_def getClient_def getConfig_def Let_def)

lemma try_request_not_configured:
  "\<not> isConfigured store \<Longrightarrow> try_request rt store net mk rest = ([], Inl NotConfigured)"
  by (simp add: try_request_def getClient_not_configured NotConfigured_def)

text \<open>
  Claim C4. For every configuration in which the username or the password is unset or
  empty, each of the nine resource operations (list, get and upload assets; list, get and
  create pages; list, create and delete tags) fails with the error whose message tells
  the user to run \<^verbatim>\<open>adobe config set\<close>, and has sent no request.
\<close>

theorem C4_not_configured:
  assumes "\<not> isConfigured store"
  shows "perform rt store net operation =
           ([], Inl (Error ''AEM credentials not configured. Run: adobe config set --username admin --password admin''))"
  using try_request_not_configured [OF assms]
  by (cases operation)
     (simp_all add: listAssets_def getAsset_def uploadAsset_def listPages_def getPage_def
        createPage_def listTags_def createTag_def deleteTag_def NotConfigured_def Let_def)

theorem C4_not_configured_witness:
  "perform example_runtime [''username'' \<mapsto> ''admin'', ''password'' \<mapsto> []] (\<lambda>req. Inr JNull)
     (DeleteTag ''/content/cq:tags/x'') =
           ([], Inl (Error ''AEM credentials not configured. Run: adobe config set --username admin --password admin''))
   \<and> perform example_runtime [''password'' \<mapsto> ''admin''] (\<lambda>req. Inr JNull)
     (ListAssets None None) =
           ([], Inl (Error ''AEM credentials not configured. Run: adobe config set --username admin --password admin''))"
proof -
  have a: "\<not> isConfigured [''username'' \<mapsto> ''admin'', ''password'' \<mapsto> []]"
    by (simp add: isConfigured_def)
  have b: "\<not> isConfigured [''password'' \<mapsto> ''admin'']"
    by (simp add: isConfigured_def)
  show ?thesis
    by (intro conjI C4_not_configured [OF a] C4_not_configured [OF b])
qed

section \<open>Error mapping\<close>

text \<open>
  Claim C5, as stated, fails for a nested \<^verbatim>\<open>error.message\<close> that is present and empty:
  the code tests the field with \<^verbatim>\<open>||\<close>, so the body's \<^verbatim>\<open>message\<close> field is taken.
\<close>

theorem C5_counterexample:
  "opt_member (opt_member (JObject [(''error'', JObject [(''message'', JString [])]),
                                    (''message'', JString ''boom'')]) ''error'') ''message''
     = JString []
   \<and> handleApiError example_runtime admin_store
       (AxiosError (Some (400, JObject [(''error'', JObject [(''message'', JString [])]),
                                        (''message'', JString ''boom'')])) True)
     = Error ''API Error (400): boom''"
  by (simp add: api_message_def String_nat.simps digit_def)

text \<open>Every convertible value has a text.\<close>

lemma join_comma_Inr:
  "list_all (\<lambda>x. \<exists>s. x = Inr s) xs \<Longrightarrow> \<exists>t. join_comma xs = Inr t"
  by (induction xs rule: join_comma.induct) auto

lemma ToString_convertible: "convertible v \<Longrightarrow> \<exists>msg. ToString rt v = Inr msg"
proof (induction rt v rule: ToString.induct)
  case (6 rt xs)
  have "list_all (\<lambda>x. \<exists>s. x = Inr s)
          (map (\<lambda>x. if x = JUndefined \<or> x = JNull then Inr [] else ToString rt x) xs)"
    unfolding list_all_iff
  proof
    fix y assume "y \<in> set (map (\<lambda>x. if x = JUndefined \<or> x = JNull then Inr [] else ToString rt x) xs)"
    then obtain x where x: "x \<in> set xs"
      "y = (if x = JUndefined \<or> x = JNull then Inr [] else ToString rt x)" by auto
    from "6.prems" x(1) have "convertible x" by (simp add: list_all_iff)
    with "6.IH" [OF x(1)] x(2) show "\<exists>s. y = Inr s" by auto
  qed
  then show ?case by (simp add: join_comma_Inr)
qed simp_all

text \<open>
  A message that is an object with a \<^verbatim>\<open>toString\<close> property of its own cannot be printed
  by the template literal of line 34: the mapping throws the conversion's \<^verbatim>\<open>TypeError\<close>.
\<close>

lemma unconvertible_message_throws:
  "handleApiError example_runtime admin_store
     (AxiosError (Some (422, JObject [(''message'', JObject [(''toString'', JString ''x'')])])) True)
   = TypeError"
  by (simp add: api_message_def)

text \<open>
  Claim C5, amended. The error mapping throws the fixed messages of authentication
  failure for status 401, forbidden access for 403, resource not found for 404 and server
  error for 500. For any other status, when the value it takes can be printed (it is not
  an object with a \<^verbatim>\<open>toString\<close> property of its own, nor an array that holds one), it
  throws \<^verbatim>\<open>API Error (<status>): <message>\<close>, the message being the text of the body's
  nested \<^verbatim>\<open>error.message\<close> if that value is truthy (present and not empty, zero, false
  or null), else the text of the body's \<^verbatim>\<open>message\<close> if that is truthy, else the
  serialized body; the text of a string is the string. When a request was made and no
  response received, the message holds the configured base URL (the default one when
  none is set). Any other failure is thrown again unchanged.
\<close>

theorem C5_error_mapping:
  "handleApiError rt store (AxiosError (Some (401, data)) req)
     = Error ''Authentication failed. Check your AEM credentials.''
   \<and> handleApiError rt store (AxiosError (Some (403, data)) req)
     = Error ''Access forbidden. Check your AEM user permissions.''
   \<and> handleApiError rt store (AxiosError (Some (404, data)) req)
     = Error ''Resource not found in AEM.''
   \<and> handleApiError rt store (AxiosError (Some (500, data)) req)
     = Error ''AEM server error. Check your AEM instance.''
   \<and> (status \<notin> {401, 403, 404, 500} \<longrightarrow>
        (truthy (opt_member (opt_member data ''error'') ''message'')
           \<and> convertible (opt_member (opt_member data ''error'') ''message'') \<longrightarrow>
         (\<exists>msg. ToString rt (opt_member (opt_member data ''error'') ''message'') = Inr msg
            \<and> handleApiError rt store (AxiosError (Some (status, data)) req)
                = Error (''API Error ('' @ String_nat status @ ''): '' @ msg)))
      \<and> (\<not> truthy (opt_member (opt_member data ''error'') ''message'')
           \<and> truthy (opt_member data ''message'')
           \<and> convertible (opt_member data ''message'') \<longrightarrow>
         (\<exists>msg. ToString rt (opt_member data ''message'') = Inr msg
            \<and> handleApiError rt store (AxiosError (Some (status, data)) req)
                = Error (''API Error ('' @ String_nat status @ ''): '' @ msg)))
      \<and> (\<not> truthy (opt_member (opt_member data ''error'') ''message'')
           \<and> \<not> truthy (opt_member data ''message'') \<longrightarrow>
         handleApiError rt store (AxiosError (Some (status, data)) req)
           = Error (''API Error ('' @ String_nat status @ ''): '' @ JSON_stringify rt data)))
   \<and> ToString rt (JString s) = Inr s
   \<and> handleApiError rt store (AxiosError None True)
     = Error (''No response from AEM at ''
              @ (if is_set (store ''baseUrl'') then default_to [] (store ''baseUrl'')
                 else ''http://localhost:4502'')
              @ ''. Is your AEM instance running?'')
   \<and> handleApiError rt store (AxiosError None False) = AxiosError None False
   \<and> handleApiError rt store (Error message) = Error message
   \<and> handleApiError rt store TypeError = TypeError"
proof -
  have url: "configured_baseURL store =
      (if is_set (store ''baseUrl'') then default_to [] (store ''baseUrl'') else ''http://localhost:4502'')"
    by (simp add: configured_baseURL_def getConfig_def DEFAULT_BASE_URL_def split: option.splits)
  let ?m1 = "opt_member (opt_member data ''error'') ''message''"
  let ?m2 = "opt_member data ''message''"
  let ?thrown = "handleApiError rt store (AxiosError (Some (status, data)) req)"
  have other: "?thrown =
      (case api_message rt data of Inl e \<Rightarrow> e
       | Inr message \<Rightarrow> Error (''API Error ('' @ String_nat status @ ''): '' @ message))"
    if "status \<notin> {401, 403, 404, 500}"
    using that by simp
  have b1: "\<exists>msg. ToString rt ?m1 = Inr msg
              \<and> ?thrown = Error (''API Error ('' @ String_nat status @ ''): '' @ msg)"
    if "status \<notin> {401, 403, 404, 500}" "truthy ?m1" "convertible ?m1"
  proof -
    from ToString_convertible [OF that(3), of rt] obtain msg where msg: "ToString rt ?m1 = Inr msg" ..
    with that(2) have "api_message rt data = Inr msg" by (simp add: api_message_def)
    with other [OF that(1)] msg show ?thesis by simp
  qed
  have b2: "\<exists>msg. ToString rt ?m2 = Inr msg
              \<and> ?thrown = Error (''API Error ('' @ String_nat status @ ''): '' @ msg)"
    if "status \<notin> {401, 403, 404, 500}" "\<not> truthy ?m1" "truthy ?m2" "convertible ?m2"
  proof -
    from ToString_convertible [OF that(4), of rt] obtain msg where msg: "ToString rt ?m2 = Inr msg" ..
    with that(2,3) have "api_message rt data = Inr msg" by (simp add: api_message_def)
    with other [OF that(1)] msg show ?thesis by simp
  qed
  have b3: "?thrown = Error (''API Error ('' @ String_nat status @ ''): '' @ JSON_stringify rt data)"
    if "status \<notin> {401, 403, 404, 500}" "\<not> truthy ?m1" "\<not> truthy ?m2"
  proof -
    from that(2,3) have "api_message rt data = Inr (JSON_stringify rt data)"
      by (simp add: api_message_def)
    with other [OF that(1)] show ?thesis by simp
  qed
  have fixed: "handleApiError rt store (AxiosError (Some (401, data)) req)
       = Error ''Authentication failed. Check your AEM credentials.''"
    "handleApiError rt store (AxiosError (Some (403, data)) req)
       = Error ''Access forbidden. Check your AEM user permissions.''"
    "handleApiError rt store (AxiosError (Some (404, data)) req)
       = Error ''Resource not found in AEM.''"
    "handleApiError rt store (AxiosError (Some (500, data)) req)
       = Error ''AEM server error. Check your AEM instance.''"
    by simp_all
  have rest: "ToString rt (JString s) = Inr s"
    "handleApiError rt store (AxiosError None True)
     = Error (''No response from AEM at ''
              @ (if is_set (store ''baseUrl'') then default_to [] (store ''baseUrl'')
                 else ''http://localhost:4502'')
              @ ''. Is your AEM instance running?'')"
    "handleApiError rt store (AxiosError None False) = AxiosError None False"
    "handleApiError rt store (Error message) = Error message"
    "handleApiError rt store TypeError = TypeError"
    by (simp_all add: url)
  from b1 b2 b3 fixed rest show ?thesis by blast
qed

theorem C5_error_mapping_witness:
  "handleApiError example_runtime admin_store
     (AxiosError (Some (418, JObject [(''error'', JObject [(''message'', JString ''teapot'')]),
                                      (''message'', JString ''outer'')])) True)
     = Error ''API Error (418): teapot''
   \<and> handleApiError example_runtime admin_store
     (AxiosError (Some (409, JObject [(''message'', JString ''conflict'')])) True)
     = Error ''API Error (409): conflict''
   \<and> handleApiError example_runtime admin_store (AxiosError (Some (502, JNull)) True)
     = Error ''API Error (502): null''
   \<and> handleApiError example_runtime (admin_store(''baseUrl'' \<mapsto> ''http://aem:4502'')) (AxiosError None True)
     = Error ''No response from AEM at http://aem:4502. Is your AEM instance running?''"
  using C5_error_mapping [where rt = example_runtime and store = admin_store and req = True
      and status = 418
      and data = "JObject [(''error'', JObject [(''message'', JString ''teapot'')]), (''message'', JString ''outer'')]"]
    C5_error_mapping [where rt = example_runtime and store = admin_store and req = True
      and status = 409
      and data = "JObject [(''message'', JString ''conflict'')]"]
    C5_error_mapping [where rt = example_runtime and store = admin_store and req = True
      and status = 502 and data = JNull]
    C5_error_mapping [where rt = example_runtime
      and store = "admin_store(''baseUrl'' \<mapsto> ''http://aem:4502'')"]
  by (simp add: example_runtime_def String_nat.simps digit_def)

section \<open>Successful operations\<close>


text \<open>
  With credentials and an answer to the request, a listing operation returns the array
  its loop builds from \<^verbatim>\<open>response.data\<close>, or throws what \<^verbatim>\<open>handleApiError\<close> makes of
  the loop's error: the statements about \<open>listAssets_rows\<close>, \<open>listPages_rows\<close> and
  \<open>listTags_rows\<close> are statements about the operations.
\<close>

lemma listing_operations:
  assumes "getClient store = Inr client"
  shows "net (Request GET client (path @ ''.infinity.json'') NoBody []) = Inr data \<Longrightarrow>
           listAssets rt store net (Some path) (Some limit) =
             ([Request GET client (path @ ''.infinity.json'') NoBody []],
              case listAssets_rows path limit data of
                Inl e \<Rightarrow> Inl (handleApiError rt store e) | Inr rows \<Rightarrow> Inr (JArray rows))"
    and "net (Request GET client (path @ ''.1.json'') NoBody []) = Inr data \<Longrightarrow>
           listPages rt store net (Some path) (Some limit) =
             ([Request GET client (path @ ''.1.json'') NoBody []],
              case listPages_rows path limit data of
                Inl e \<Rightarrow> Inl (handleApiError rt store e) | Inr rows \<Rightarrow> Inr (JArray rows))"
    and "net (Request GET client (path @ ''.1.json'') NoBody []) = Inr data \<Longrightarrow>
           listTags rt store net (Some path) =
             ([Request GET client (path @ ''.1.json'') NoBody []],
              case listTags_rows path data of
                Inl e \<Rightarrow> Inl (handleApiError rt store e) | Inr rows \<Rightarrow> Inr (JArray rows))"
  using assms
  by (simp_all add: listAssets_def listPages_def listTags_def try_request_def split: sum.splits)

lemma getClient_admin_store:
  "getClient admin_store =
     Inr (Client ''http://localhost:4502'' (''admin'', ''admin'')
            [(''Accept'', ''application/json''), (''Content-Type'', ''application/json'')])"
  by (simp add: getClient_def admin_store_def getConfig_def configured_baseURL_def
        DEFAULT_BASE_URL_def Let_def)




text \<open>
  What a successful \<^verbatim>\<open>createPage\<close> returns: the path is the parent path, a slash and the
  page name; the template is the argument as it was given.
\<close>

lemma createPage_returns:
  "getClient store = Inr client \<Longrightarrow>
   net (Request POST client parentPath
          (UrlEncoded
            [(''_charset_'', ''utf-8''),
             ('':name'', pageName),
             (''jcr:primaryType'', ''cq:Page''),
             (''jcr:content/jcr:primaryType'', ''cq:PageContent''),
             (''jcr:content/jcr:title'', title),
             (''jcr:content/cq:template'',
                (if is_set template then default_to [] template
                 else ''/libs/wcm/foundation/templates/page''))])
          [(''Content-Type'', ''application/x-www-form-urlencoded'')]) = Inr response \<Longrightarrow>
   snd (createPage rt store net parentPath pageName title template) =
     Inr (JObject [(''path'', JString (parentPath @ ''/'' @ pageName)),
                   (''title'', JString title),
                   (''template'', arg_value template)])"
  by (simp add: createPage_def try_request_def)

text \<open>
  Claim C8, with the template argument left out. The claim has the returned object carry
  the default template \<^verbatim>\<open>/libs/wcm/foundation/templates/page\<close>. The code puts the default
  into the request (line 148) and returns the argument itself (line 154): the page is
  created with the default template and the returned \<^verbatim>\<open>template\<close> is \<^verbatim>\<open>undefined\<close>.
\<close>

theorem C8_template_unset:
  "createPage example_runtime admin_store (\<lambda>req. Inr (JString [])) ''/content/site'' ''home'' ''Home'' None
   = ([Request POST
         (Client ''http://localhost:4502'' (''admin'', ''admin'')
            [(''Accept'', ''application/json''), (''Content-Type'', ''application/json'')])
         ''/content/site''
         (UrlEncoded
            [(''_charset_'', ''utf-8''),
             ('':name'', ''home''),
             (''jcr:primaryType'', ''cq:Page''),
             (''jcr:content/jcr:primaryType'', ''cq:PageContent''),
             (''jcr:content/jcr:title'', ''Home''),
             (''jcr:content/cq:template'', ''/libs/wcm/foundation/templates/page'')])
         [(''Content-Type'', ''application/x-www-form-urlencoded'')]],
      Inr (JObject [(''path'', JString ''/content/site/home''),
                    (''title'', JString ''Home''),
                    (''template'', JUndefined)]))"
  by (simp add: createPage_def try_request_def getClient_admin_store)

theorem C8_template_unset_witness:
  "opt_member (projr (snd (createPage example_runtime admin_store (\<lambda>req. Inr (JString []))
      ''/content/site'' ''home'' ''Home'' None))) ''template'' = JUndefined"
  using C8_template_unset by simp

section \<open>The stored password is never shown\<close>

text \<open>
  Claim C9. For every stored configuration, \<^verbatim>\<open>config get password\<close> prints the mask
  \<^verbatim>\<open>****\<close> whatever the stored password is; \<^verbatim>\<open>config list\<close> prints the same lines for any
  two non-empty stored passwords, its password line being the mask, and it reports the
  base URL as \<^verbatim>\<open>using default: http://localhost:4502\<close> when none is stored.
\<close>

theorem C9_password_masked:
  "config_get chalk (store(''password'' \<mapsto> p)) ''password'' = [Stdout ''****'']
   \<and> (p \<noteq> [] \<and> q \<noteq> [] \<longrightarrow>
        config_list chalk (store(''password'' \<mapsto> p)) = config_list chalk (store(''password'' \<mapsto> q)))
   \<and> (p \<noteq> [] \<longrightarrow>
        config_list chalk (store(''password'' \<mapsto> p)) ! 2 = Stdout (''Password:  '' @ chalk green ''****''))
   \<and> (store ''baseUrl'' = None \<longrightarrow>
        config_list chalk store ! 3
          = Stdout (''Base URL:  '' @ chalk yellow ''using default: http://localhost:4502''))"
  by (simp add: config_get_def config_list_def getConfig_def getAllConfig_def Let_def)

theorem C9_password_masked_witness:
  "config_get (\<lambda>c s. s) [''username'' \<mapsto> ''admin'', ''password'' \<mapsto> ''s3cret''] ''password''
     = [Stdout ''****'']
   \<and> config_list (\<lambda>c s. s) [''username'' \<mapsto> ''admin'', ''password'' \<mapsto> ''s3cret'']
     = config_list (\<lambda>c s. s) [''username'' \<mapsto> ''admin'', ''password'' \<mapsto> ''hunter2'']
   \<and> config_list (\<lambda>c s. s) [''username'' \<mapsto> ''admin'', ''password'' \<mapsto> ''s3cret'']
     = [Stdout ([CHR 0x0A] @ ''Adobe AEM CLI Configuration'' @ [CHR 0x0A]),
        Stdout ''Username:  admin'',
        Stdout ''Password:  ****'',
        Stdout ''Base URL:  using default: http://localhost:4502'',
        Stdout []]"
  using C9_password_masked [of "\<lambda>c s. s" "[''username'' \<mapsto> ''admin'']" "''s3cret''" "''hunter2''"]
  by (simp add: config_list_def getAllConfig_def Let_def)

end
